theory Spec2Isabelle
  imports Main
begin

section \<open>Graph views\<close>

text \<open>
  The recognition predicates of \<^verbatim>\<open>networkx/algorithms/tree/recognition.py\<close> read a graph
  only through its query methods. A graph view is a record of the node list (the keys of
  the node dictionary, hence without repetition), the edge list (one entry per edge, so
  that parallel edges are counted one by one) and the directedness flag. In an undirected
  graph the entry \<open>(u, v)\<close> stands for the edge between \<open>u\<close> and \<open>v\<close>.
\<close>

record 'a graph =
  nodes :: "'a list"
  edges :: "('a \<times> 'a) list"
  directed :: bool

text \<open>The exceptions a call can end with.\<close>

datatype error = NetworkXPointlessConcept | NetworkXNotImplemented | ValueError

text \<open>
  The representation invariant of a graph object: node identities are unique and every
  edge joins two nodes of the graph.
\<close>

definition wf_graph :: "'a graph \<Rightarrow> bool" where
  "wf_graph G \<longleftrightarrow>
     distinct (nodes G) \<and>
     (\<forall>e \<in> set (edges G). fst e \<in> set (nodes G) \<and> snd e \<in> set (nodes G))"

subsection \<open>The collaborators of the graph library\<close>

text \<open>
  Modelled from the spec: the methods \<^verbatim>\<open>number_of_nodes\<close>, \<^verbatim>\<open>number_of_edges\<close> and
  \<^verbatim>\<open>is_directed\<close> of the graph class are not part of the source file; the spec lists them
  as \<open>NodeCount\<close>, \<open>EdgeCount\<close> (multi-edges counted individually) and \<open>IsDirected\<close>.
\<close>

definition number_of_nodes :: "'a graph \<Rightarrow> int" where
  "number_of_nodes G = int (length (nodes G))"

definition number_of_edges :: "'a graph \<Rightarrow> int" where
  "number_of_edges G = int (length (edges G))"

definition is_directed :: "'a graph \<Rightarrow> bool" where
  "is_directed G = directed G"

text \<open>
  Modelled from the spec: the method \<^verbatim>\<open>in_degree\<close> is not part of the source file; the spec
  gives it as the function from a node to the number of edges terminating at that node.
  Without an argument it returns the dictionary of all nodes, here an association list
  with one entry per node.
\<close>

definition in_degree_of :: "'a graph \<Rightarrow> 'a \<Rightarrow> int" where
  "in_degree_of G v = int (length (filter (\<lambda>e. snd e = v) (edges G)))"

definition in_degree :: "'a graph \<Rightarrow> ('a \<times> int) list" where
  "in_degree G = map (\<lambda>v. (v, in_degree_of G v)) (nodes G)"

text \<open>The \<^verbatim>\<open>values()\<close> of a dictionary.\<close>

definition dict_values :: "('k \<times> 'v) list \<Rightarrow> 'v list" where
  "dict_values d = map snd d"

text \<open>Python's built-in \<^verbatim>\<open>max\<close> of a collection: it raises \<^verbatim>\<open>ValueError\<close> on an empty one.\<close>

fun py_max :: "int list \<Rightarrow> error + int" where
  "py_max [] = Inl ValueError"
| "py_max (x # xs) = Inr (fold max xs x)"

text \<open>
  Modelled from the spec: the connectivity functions \<^verbatim>\<open>is_connected\<close>,
  \<^verbatim>\<open>is_weakly_connected\<close>, \<^verbatim>\<open>connected_component_subgraphs\<close> and
  \<^verbatim>\<open>weakly_connected_component_subgraphs\<close> are not part of the source file. The spec
  describes them as the connectivity test and the decomposition into components of the
  underlying undirected structure, which ignores edge direction; each component is itself
  a graph view with its own node and edge counts.
\<close>

definition links :: "'a graph \<Rightarrow> ('a \<times> 'a) set" where
  "links G = set (edges G) \<union> set (map prod.swap (edges G))"

definition joined :: "'a graph \<Rightarrow> 'a \<Rightarrow> 'a \<Rightarrow> bool" where
  "joined G u v \<longleftrightarrow> u = v \<or> (u, v) \<in> (links G)\<^sup>+"

definition is_connected :: "'a graph \<Rightarrow> bool" where
  "is_connected G \<longleftrightarrow> (\<forall>u \<in> set (nodes G). \<forall>v \<in> set (nodes G). joined G u v)"

definition is_weakly_connected :: "'a graph \<Rightarrow> bool" where
  "is_weakly_connected G \<longleftrightarrow> (\<forall>u \<in> set (nodes G). \<forall>v \<in> set (nodes G). joined G u v)"

definition subgraph :: "'a graph \<Rightarrow> 'a list \<Rightarrow> 'a graph" where
  "subgraph G c =
     \<lparr>nodes = c,
      edges = filter (\<lambda>e. fst e \<in> set c \<and> snd e \<in> set c) (edges G),
      directed = directed G\<rparr>"

definition component_nodes :: "'a graph \<Rightarrow> 'a list list" where
  "component_nodes G = remdups (map (\<lambda>v. filter (joined G v) (nodes G)) (nodes G))"

definition connected_component_subgraphs :: "'a graph \<Rightarrow> 'a graph list" where
  "connected_component_subgraphs G = map (subgraph G) (component_nodes G)"

definition weakly_connected_component_subgraphs :: "'a graph \<Rightarrow> 'a graph list" where
  "weakly_connected_component_subgraphs G = map (subgraph G) (component_nodes G)"

text \<open>
  Modelled from the spec: the decorator \<^verbatim>\<open>not_implemented_for('undirected')\<close> is not part
  of the source file. The spec gives its effect: a call with an undirected graph is
  reported as an unsupported operation instead of running the decorated function.
\<close>

definition not_implemented_for_undirected ::
  "('a graph \<Rightarrow> error + bool) \<Rightarrow> 'a graph \<Rightarrow> error + bool" where
  "not_implemented_for_undirected f G =
     (if \<not> is_directed G then Inl NetworkXNotImplemented else f G)"

section \<open>The recognition predicates\<close>

text \<open>
  The loop of \<^verbatim>\<open>is_forest\<close> over the components: it returns \<^verbatim>\<open>False\<close> at the first
  component whose edge count differs from its node count minus one.
\<close>

fun forest_loop :: "'a graph list \<Rightarrow> bool" where
  "forest_loop [] = True"
| "forest_loop (component # rest) =
     (if number_of_edges component \<noteq> number_of_nodes component - 1 then False
      else forest_loop rest)"

definition is_forest :: "'a graph \<Rightarrow> error + bool" where
  "is_forest G =
     (let n = number_of_nodes G in
      if n = 0 then Inl NetworkXPointlessConcept
      else
        let components =
          (if is_directed G then weakly_connected_component_subgraphs
           else connected_component_subgraphs)
        in Inr (forest_loop (components G)))"

definition is_tree :: "'a graph \<Rightarrow> error + bool" where
  "is_tree G =
     (let n = number_of_nodes G in
      if n = 0 then Inl NetworkXPointlessConcept
      else
        let is_connected' = (if is_directed G then is_weakly_connected else is_connected)
        in if number_of_edges G \<noteq> n - 1 then Inr False
           else Inr (is_connected' G))"

text \<open>
  The in-degree test shared by \<^verbatim>\<open>is_arborescence\<close> and \<^verbatim>\<open>is_branching\<close>:
  \<^verbatim>\<open>if max(G.in_degree().values()) > 1: return False\<close> followed by \<^verbatim>\<open>return True\<close>.
  The method \<^verbatim>\<open>G.in_degree\<close> is a parameter \<open>indeg\<close> that may itself raise, so that
  the theorems can tell a call that consults it from one that does not.
\<close>

definition in_degree_test ::
  "('a graph \<Rightarrow> error + ('a \<times> int) list) \<Rightarrow> 'a graph \<Rightarrow> error + bool" where
  "in_degree_test indeg G =
     (case indeg G of
        Inl e \<Rightarrow> Inl e
      | Inr d \<Rightarrow>
          (case py_max (dict_values d) of
             Inl e \<Rightarrow> Inl e
           | Inr m \<Rightarrow> if m > 1 then Inr False else Inr True))"

definition is_arborescence_with ::
  "('a graph \<Rightarrow> error + ('a \<times> int) list) \<Rightarrow> 'a graph \<Rightarrow> error + bool" where
  "is_arborescence_with indeg =
     not_implemented_for_undirected (\<lambda>G.
       case is_tree G of
         Inl e \<Rightarrow> Inl e
       | Inr t \<Rightarrow> if \<not> t then Inr False else in_degree_test indeg G)"

definition is_branching_with ::
  "('a graph \<Rightarrow> error + ('a \<times> int) list) \<Rightarrow> 'a graph \<Rightarrow> error + bool" where
  "is_branching_with indeg =
     not_implemented_for_undirected (\<lambda>G.
       case is_forest G of
         Inl e \<Rightarrow> Inl e
       | Inr f \<Rightarrow> if \<not> f then Inr False else in_degree_test indeg G)"

text \<open>The predicates as the library runs them, on the graph's own in-degree method.\<close>

definition is_arborescence :: "'a graph \<Rightarrow> error + bool" where
  "is_arborescence = is_arborescence_with (\<lambda>G. Inr (in_degree G))"

definition is_branching :: "'a graph \<Rightarrow> error + bool" where
  "is_branching = is_branching_with (\<lambda>G. Inr (in_degree G))"

subsection \<open>Notions the statements use\<close>

text \<open>
  Two nodes are connected when a path of edges, read in either direction, leads from one
  to the other; a graph is connected when all its nodes are pairwise connected. The
  component of a node is the set of nodes connected to it, and the edges of a component
  are those with both ends in it.
\<close>

definition connected :: "'a graph \<Rightarrow> bool" where
  "connected G \<longleftrightarrow> (\<forall>u \<in> set (nodes G). \<forall>v \<in> set (nodes G). (u, v) \<in> (links G)\<^sup>*)"

definition component_of :: "'a graph \<Rightarrow> 'a \<Rightarrow> 'a set" where
  "component_of G v = {u \<in> set (nodes G). (v, u) \<in> (links G)\<^sup>*}"

definition edges_within :: "'a graph \<Rightarrow> 'a set \<Rightarrow> ('a \<times> 'a) list" where
  "edges_within G C = filter (\<lambda>e. fst e \<in> C \<and> snd e \<in> C) (edges G)"

definition max_in_degree :: "'a graph \<Rightarrow> int" where
  "max_in_degree G = Max (in_degree_of G ` set (nodes G))"

text \<open>Graphs for the concrete checks: the empty graphs, a path, a triangle, a fork.\<close>

definition null_graph :: "bool \<Rightarrow> nat graph" where
  "null_graph d = \<lparr>nodes = [], edges = [], directed = d\<rparr>"

definition path3 :: "bool \<Rightarrow> nat graph" where
  "path3 d = \<lparr>nodes = [1, 2, 3], edges = [(1, 2), (2, 3)], directed = d\<rparr>"

definition triangle :: "bool \<Rightarrow> nat graph" where
  "triangle d = \<lparr>nodes = [1, 2, 3], edges = [(1, 2), (2, 3), (3, 1)], directed = d\<rparr>"

definition fork_in :: "nat graph" where
  "fork_in = \<lparr>nodes = [1, 2, 3], edges = [(1, 3), (2, 3)], directed = True\<rparr>"

definition two_arcs :: "nat graph" where
  "two_arcs = \<lparr>nodes = [1, 2, 3, 4], edges = [(1, 2), (3, 4)], directed = True\<rparr>"

section \<open>Properties\<close>

subsection \<open>The collaborators\<close>

lemma joined_iff_rtrancl: "joined G u v \<longleftrightarrow> (u, v) \<in> (links G)\<^sup>*"
  by (auto simp: joined_def rtrancl_eq_or_trancl)

lemma is_connected_iff: "is_connected G \<longleftrightarrow> connected G"
  by (simp add: is_connected_def connected_def joined_iff_rtrancl)

lemma is_weakly_connected_iff: "is_weakly_connected G \<longleftrightarrow> connected G"
  by (simp add: is_weakly_connected_def connected_def joined_iff_rtrancl)

lemma number_of_nodes_eq_0: "number_of_nodes G = 0 \<longleftrightarrow> nodes G = []"
  by (simp add: number_of_nodes_def)

lemma set_component: "set (filter (joined G v) (nodes G)) = component_of G v"
  by (auto simp: component_of_def joined_iff_rtrancl)

lemma component_of_eq: "{u \<in> set (nodes G). joined G v u} = component_of G v"
  by (simp add: component_of_def joined_iff_rtrancl)

lemma length_component:
  assumes "distinct (nodes G)"
  shows "length (filter (joined G v) (nodes G)) = card (component_of G v)"
proof -
  have "distinct (filter (joined G v) (nodes G))"
    using assms by simp
  then have "card (set (filter (joined G v) (nodes G))) = length (filter (joined G v) (nodes G))"
    by (rule distinct_card)
  then show ?thesis
    by (simp only: set_component)
qed

lemma number_of_nodes_subgraph: "number_of_nodes (subgraph G c) = int (length c)"
  by (simp add: number_of_nodes_def subgraph_def)

lemma number_of_edges_subgraph:
  "number_of_edges (subgraph G c) = int (length (edges_within G (set c)))"
  by (simp add: number_of_edges_def subgraph_def edges_within_def)

lemma subgraph_nodes: "wf_graph G \<Longrightarrow> subgraph G (nodes G) = G"
  by (simp add: subgraph_def wf_graph_def)

text \<open>A connected graph has one component, the graph itself.\<close>

lemma remdups_const: "xs \<noteq> [] \<Longrightarrow> \<forall>y \<in> set xs. y = x \<Longrightarrow> remdups xs = [x]"
proof (induction xs)
  case Nil
  then show ?case by simp
next
  case (Cons a xs)
  then show ?case by (cases xs) auto
qed

lemma component_nodes_connected:
  assumes "nodes G \<noteq> []" and "connected G"
  shows "component_nodes G = [nodes G]"
proof -
  have "filter (joined G v) (nodes G) = nodes G" if "v \<in> set (nodes G)" for v
    using that assms(2) by (simp add: connected_def joined_iff_rtrancl)
  then have "\<forall>c \<in> set (map (\<lambda>v. filter (joined G v) (nodes G)) (nodes G)). c = nodes G"
    by simp
  moreover have "map (\<lambda>v. filter (joined G v) (nodes G)) (nodes G) \<noteq> []"
    using assms(1) by simp
  ultimately show ?thesis
    unfolding component_nodes_def by (rule remdups_const [rotated])
qed

text \<open>Python's \<^verbatim>\<open>max\<close> of a non-empty collection is its greatest element.\<close>

lemma py_max_Max: "xs \<noteq> [] \<Longrightarrow> py_max xs = Inr (Max (set xs))"
proof (cases xs)
  case Nil
  assume "xs \<noteq> []"
  with Nil show ?thesis by simp
next
  case (Cons a list)
  have "Max (set (a # list)) = fold max list a"
    by (rule Max.set_eq_fold)
  with Cons show ?thesis by (simp only: py_max.simps)
qed

lemma dict_values_in_degree: "dict_values (in_degree G) = map (in_degree_of G) (nodes G)"
  by (simp add: dict_values_def in_degree_def comp_def)

lemma undirected_guard:
  "\<not> directed G \<Longrightarrow> not_implemented_for_undirected f G = Inl NetworkXNotImplemented"
  by (simp add: not_implemented_for_undirected_def is_directed_def)

lemma directed_guard: "directed G \<Longrightarrow> not_implemented_for_undirected f G = f G"
  by (simp add: not_implemented_for_undirected_def is_directed_def)

subsection \<open>The four predicates, case by case\<close>

lemma forest_loop_iff:
  "forest_loop cs \<longleftrightarrow> (\<forall>c \<in> set cs. number_of_edges c = number_of_nodes c - 1)"
  by (induction cs) auto

lemma is_forest_empty: "nodes G = [] \<Longrightarrow> is_forest G = Inl NetworkXPointlessConcept"
  by (simp add: is_forest_def number_of_nodes_eq_0)

lemma is_tree_empty: "nodes G = [] \<Longrightarrow> is_tree G = Inl NetworkXPointlessConcept"
  by (simp add: is_tree_def number_of_nodes_eq_0)

lemma is_forest_nonempty:
  "nodes G \<noteq> [] \<Longrightarrow>
     is_forest G = Inr (forest_loop (map (subgraph G) (component_nodes G)))"
  by (simp add: is_forest_def number_of_nodes_eq_0 Let_def
      weakly_connected_component_subgraphs_def connected_component_subgraphs_def)

lemma is_tree_nonempty:
  "nodes G \<noteq> [] \<Longrightarrow>
     is_tree G = Inr (number_of_edges G = number_of_nodes G - 1 \<and> connected G)"
  by (simp add: is_tree_def number_of_nodes_eq_0 Let_def
      is_connected_iff is_weakly_connected_iff)

lemma forest_loop_components:
  assumes "distinct (nodes G)"
  shows "forest_loop (map (subgraph G) (component_nodes G)) \<longleftrightarrow>
    (\<forall>v \<in> set (nodes G).
       int (length (edges_within G (component_of G v))) = int (card (component_of G v)) - 1)"
  using assms
  by (simp add: forest_loop_iff component_nodes_def number_of_nodes_subgraph
      number_of_edges_subgraph component_of_eq length_component)

lemma is_forest_connected:
  assumes "wf_graph G" and "nodes G \<noteq> []" and "connected G"
  shows "is_forest G = Inr (number_of_edges G = number_of_nodes G - 1)"
  using assms
  by (simp add: is_forest_nonempty component_nodes_connected subgraph_nodes)

lemma in_degree_test_nonempty:
  assumes "nodes G \<noteq> []"
  shows "in_degree_test (\<lambda>G. Inr (in_degree G)) G = Inr (max_in_degree G \<le> 1)"
proof -
  have "py_max (dict_values (in_degree G)) = Inr (max_in_degree G)"
    using assms by (simp add: dict_values_in_degree py_max_Max max_in_degree_def)
  then show ?thesis
    by (simp add: in_degree_test_def)
qed

lemma is_branching_with_directed:
  "directed G \<Longrightarrow> is_forest G = Inr f \<Longrightarrow>
     is_branching_with indeg G = (if f then in_degree_test indeg G else Inr False)"
  by (simp add: is_branching_with_def directed_guard)

lemma is_arborescence_with_directed:
  "directed G \<Longrightarrow> is_tree G = Inr t \<Longrightarrow>
     is_arborescence_with indeg G = (if t then in_degree_test indeg G else Inr False)"
  by (simp add: is_arborescence_with_def directed_guard)

text \<open>The predicates on the concrete graphs.\<close>

lemma wf_path3: "wf_graph (path3 d)"
  by (simp add: wf_graph_def path3_def)

lemma wf_triangle: "wf_graph (triangle d)"
  by (simp add: wf_graph_def triangle_def)

lemma wf_two_arcs: "wf_graph two_arcs"
  by (simp add: wf_graph_def two_arcs_def)

lemma is_tree_path3: "is_tree (path3 False) = Inr True"
  by code_simp

lemma is_forest_path3: "is_forest (path3 True) = Inr True"
  by code_simp

lemma is_forest_two_arcs: "is_forest two_arcs = Inr True"
  by code_simp

lemma is_tree_two_arcs: "is_tree two_arcs = Inr False"
  by code_simp

lemma is_branching_two_arcs: "is_branching two_arcs = Inr True"
  by code_simp

lemma is_forest_triangle: "is_forest (triangle d) = Inr False"
  by (cases d) (simp_all, code_simp+)

lemma is_tree_fork_in: "is_tree fork_in = Inr True"
  by code_simp

lemma is_arborescence_fork_in: "is_arborescence fork_in = Inr False"
  by code_simp

lemma connected_triangle: "connected (triangle False)"
proof -
  have "is_connected (triangle False)"
    by code_simp
  then show ?thesis
    by (simp only: is_connected_iff)
qed

section \<open>The claims\<close>

text \<open>
  C1. For every non-empty graph \<open>G\<close>, \<open>is_tree G\<close> returns true if and only if \<open>G\<close> has
  exactly \<open>n - 1\<close> edges, \<open>n\<close> the number of nodes, and \<open>G\<close> is connected (weakly connected
  when \<open>G\<close> is directed: connectivity ignores the direction of the edges).
\<close>

theorem is_tree_iff:
  "nodes G \<noteq> [] \<Longrightarrow>
     is_tree G = Inr (number_of_edges G = number_of_nodes G - 1 \<and> connected G)"
  by (rule is_tree_nonempty)

text \<open>The undirected path on three nodes: the call returns true, so the path is connected.\<close>

theorem is_tree_iff_witness:
  "nodes (path3 False) \<noteq> [] \<and> is_tree (path3 False) = Inr True \<and>
   number_of_edges (path3 False) = number_of_nodes (path3 False) - 1 \<and>
   connected (path3 False)"
proof -
  have ne: "nodes (path3 False) \<noteq> []"
    by (simp add: path3_def)
  from is_tree_iff [OF ne] is_tree_path3 ne show ?thesis
    by simp
qed

text \<open>
  C2. For every non-empty graph \<open>G\<close>, \<open>is_forest G\<close> returns true if and only if every
  connected component of the underlying undirected structure of \<open>G\<close> (every weakly
  connected component when \<open>G\<close> is directed) has as many edges as it has nodes, minus one.
  A graph is a graph object of the library, which keeps the invariant \<open>wf_graph\<close>.
\<close>

theorem is_forest_iff:
  "wf_graph G \<Longrightarrow> nodes G \<noteq> [] \<Longrightarrow>
     is_forest G = Inr (\<forall>v \<in> set (nodes G).
       int (length (edges_within G (component_of G v))) = int (card (component_of G v)) - 1)"
  by (simp add: is_forest_nonempty forest_loop_components wf_graph_def)

text \<open>Two disjoint arcs: the call returns true, so the component of node 3 has one edge
  less than it has nodes.\<close>

theorem is_forest_iff_witness:
  "wf_graph two_arcs \<and> nodes two_arcs \<noteq> [] \<and> is_forest two_arcs = Inr True \<and>
   int (length (edges_within two_arcs (component_of two_arcs 3))) =
     int (card (component_of two_arcs 3)) - 1"
proof -
  have ne: "nodes two_arcs \<noteq> []" and in3: "3 \<in> set (nodes two_arcs)"
    by (simp_all add: two_arcs_def)
  from is_forest_iff [OF wf_two_arcs ne] is_forest_two_arcs in3 wf_two_arcs ne
  show ?thesis
    by simp
qed

text \<open>
  C3, as amended. On every graph with zero nodes, directed or not, \<open>is_forest\<close> and
  \<open>is_tree\<close> raise \<open>NetworkXPointlessConcept\<close>; \<open>is_branching\<close> and \<open>is_arborescence\<close>
  raise it on every directed graph with zero nodes.
\<close>

theorem null_graph_pointless:
  "nodes G = [] \<Longrightarrow>
     is_forest G = Inl NetworkXPointlessConcept \<and>
     is_tree G = Inl NetworkXPointlessConcept \<and>
     (directed G \<longrightarrow>
        is_branching G = Inl NetworkXPointlessConcept \<and>
        is_arborescence G = Inl NetworkXPointlessConcept)"
  by (simp add: is_branching_def is_arborescence_def is_branching_with_def
      is_arborescence_with_def directed_guard is_forest_empty is_tree_empty)

text \<open>The directed graph without nodes.\<close>

theorem null_graph_pointless_witness:
  "nodes (null_graph True) = [] \<and> directed (null_graph True) \<and>
   is_forest (null_graph True) = Inl NetworkXPointlessConcept \<and>
   is_tree (null_graph True) = Inl NetworkXPointlessConcept \<and>
   is_branching (null_graph True) = Inl NetworkXPointlessConcept \<and>
   is_arborescence (null_graph True) = Inl NetworkXPointlessConcept"
  using null_graph_pointless [of "null_graph True"] by (simp add: null_graph_def)

text \<open>
  On the undirected graph without nodes the two directed-only predicates do not raise
  \<open>NetworkXPointlessConcept\<close>: the decorator rejects the graph first.
\<close>

theorem null_undirected_counterexample:
  "nodes (null_graph False) = [] \<and>
   is_branching (null_graph False) \<noteq> Inl NetworkXPointlessConcept \<and>
   is_arborescence (null_graph False) \<noteq> Inl NetworkXPointlessConcept"
  by (simp add: null_graph_def is_branching_def is_arborescence_def is_branching_with_def
      is_arborescence_with_def undirected_guard)

text \<open>
  C4. For every non-empty directed graph \<open>G\<close>, \<open>is_branching G\<close> returns true if and only
  if \<open>is_forest G\<close> returns true and the maximum in-degree over the nodes of \<open>G\<close> is at
  most 1. When \<open>is_forest G\<close> is false, \<open>is_branching\<close> returns false without computing
  the in-degrees: the result is false whatever the in-degree method would do, even raise.
\<close>

theorem is_branching_iff:
  assumes "directed G" and "nodes G \<noteq> []"
  shows "is_branching G = Inr (is_forest G = Inr True \<and> max_in_degree G \<le> 1) \<and>
    (\<forall>indeg. is_forest G = Inr False \<longrightarrow> is_branching_with indeg G = Inr False)"
proof -
  obtain f where f: "is_forest G = Inr f"
    using assms(2) by (simp add: is_forest_nonempty)
  have "is_branching G = Inr (is_forest G = Inr True \<and> max_in_degree G \<le> 1)"
    using assms f
    by (simp add: is_branching_def is_branching_with_directed in_degree_test_nonempty)
  moreover have "is_branching_with indeg G = Inr False" if "is_forest G = Inr False" for indeg
    using is_branching_with_directed [OF assms(1) that] by simp
  ultimately show ?thesis by blast
qed

text \<open>Two disjoint arcs form a branching; on the directed triangle, which is no forest,
  the answer is false although the in-degree method raises.\<close>

theorem is_branching_iff_witness:
  "directed two_arcs \<and> nodes two_arcs \<noteq> [] \<and>
   is_branching two_arcs = Inr True \<and> max_in_degree two_arcs \<le> 1 \<and>
   directed (triangle True) \<and> nodes (triangle True) \<noteq> [] \<and>
   is_forest (triangle True) = Inr False \<and>
   is_branching_with (\<lambda>G. Inl ValueError) (triangle True) = Inr False"
proof -
  have a: "directed two_arcs" "nodes two_arcs \<noteq> []"
    by (simp_all add: two_arcs_def)
  have b: "directed (triangle True)" "nodes (triangle True) \<noteq> []"
    by (simp_all add: triangle_def)
  from is_branching_iff [OF a] is_branching_two_arcs
  have "max_in_degree two_arcs \<le> 1"
    by simp
  moreover from is_branching_iff [OF b] is_forest_triangle
  have "is_branching_with (\<lambda>G. Inl ValueError) (triangle True) = Inr False"
    by blast
  ultimately show ?thesis
    using a b is_branching_two_arcs is_forest_triangle by simp
qed

text \<open>
  C5. For every non-empty directed graph \<open>G\<close>, \<open>is_arborescence G\<close> returns true if and
  only if \<open>is_tree G\<close> returns true and the maximum in-degree over the nodes of \<open>G\<close> is at
  most 1. When \<open>is_tree G\<close> is false, \<open>is_arborescence\<close> returns false without computing
  the in-degrees: the result is false whatever the in-degree method would do, even raise.
\<close>

theorem is_arborescence_iff:
  assumes "directed G" and "nodes G \<noteq> []"
  shows "is_arborescence G = Inr (is_tree G = Inr True \<and> max_in_degree G \<le> 1) \<and>
    (\<forall>indeg. is_tree G = Inr False \<longrightarrow> is_arborescence_with indeg G = Inr False)"
proof -
  obtain t where t: "is_tree G = Inr t"
    using assms(2) by (simp add: is_tree_nonempty)
  have "is_arborescence G = Inr (is_tree G = Inr True \<and> max_in_degree G \<le> 1)"
    using assms t
    by (simp add: is_arborescence_def is_arborescence_with_directed in_degree_test_nonempty)
  moreover have "is_arborescence_with indeg G = Inr False" if "is_tree G = Inr False" for indeg
    using is_arborescence_with_directed [OF assms(1) that] by simp
  ultimately show ?thesis by blast
qed

text \<open>Two arcs into one node form a tree that is no arborescence, so its maximum
  in-degree exceeds 1; two disjoint arcs are no tree, and the answer is false although the
  in-degree method raises.\<close>

theorem is_arborescence_iff_witness:
  "directed fork_in \<and> nodes fork_in \<noteq> [] \<and>
   is_tree fork_in = Inr True \<and> is_arborescence fork_in = Inr False \<and>
   \<not> max_in_degree fork_in \<le> 1 \<and>
   directed two_arcs \<and> nodes two_arcs \<noteq> [] \<and>
   is_tree two_arcs = Inr False \<and>
   is_arborescence_with (\<lambda>G. Inl ValueError) two_arcs = Inr False"
proof -
  have a: "directed fork_in" "nodes fork_in \<noteq> []"
    by (simp_all add: fork_in_def)
  have b: "directed two_arcs" "nodes two_arcs \<noteq> []"
    by (simp_all add: two_arcs_def)
  from is_arborescence_iff [OF a] is_arborescence_fork_in is_tree_fork_in
  have "\<not> max_in_degree fork_in \<le> 1"
    by simp
  moreover from is_arborescence_iff [OF b] is_tree_two_arcs
  have "is_arborescence_with (\<lambda>G. Inl ValueError) two_arcs = Inr False"
    by blast
  ultimately show ?thesis
    using a b is_arborescence_fork_in is_tree_fork_in is_tree_two_arcs by simp
qed

text \<open>
  C6. For every undirected graph \<open>G\<close>, of any node count, \<open>is_branching G\<close> and
  \<open>is_arborescence G\<close> raise the unsupported-operation error \<open>NetworkXNotImplemented\<close>
  and return no boolean.
\<close>

theorem undirected_not_implemented:
  "\<not> directed G \<Longrightarrow>
     is_branching G = Inl NetworkXNotImplemented \<and>
     is_arborescence G = Inl NetworkXNotImplemented"
  by (simp add: is_branching_def is_arborescence_def is_branching_with_def
      is_arborescence_with_def undirected_guard)

text \<open>The undirected path on three nodes, a tree.\<close>

theorem undirected_not_implemented_witness:
  "\<not> directed (path3 False) \<and> is_tree (path3 False) = Inr True \<and>
   is_branching (path3 False) = Inl NetworkXNotImplemented \<and>
   is_arborescence (path3 False) = Inl NetworkXNotImplemented"
proof -
  have u: "\<not> directed (path3 False)"
    by (simp add: path3_def)
  from undirected_not_implemented [OF u] u is_tree_path3 show ?thesis
    by simp
qed

text \<open>
  C7. For every non-empty graph \<open>G\<close>, if \<open>is_tree G\<close> returns true then \<open>is_forest G\<close>
  returns true. A graph on which \<open>is_tree\<close> returns true is non-empty, and a graph is a
  graph object of the library, which keeps the invariant \<open>wf_graph\<close>.
\<close>

theorem tree_forest: "wf_graph G \<Longrightarrow> is_tree G = Inr True \<Longrightarrow> is_forest G = Inr True"
proof -
  assume wf: "wf_graph G" and t: "is_tree G = Inr True"
  have ne: "nodes G \<noteq> []"
    using t by (auto simp: is_tree_empty)
  with t have "number_of_edges G = number_of_nodes G - 1" and "connected G"
    by (simp_all add: is_tree_nonempty)
  with wf ne show ?thesis
    by (simp add: is_forest_connected)
qed

text \<open>The undirected path on three nodes.\<close>

theorem tree_forest_witness:
  "wf_graph (path3 False) \<and> is_tree (path3 False) = Inr True \<and>
   is_forest (path3 False) = Inr True"
  using tree_forest [OF wf_path3 is_tree_path3] wf_path3 is_tree_path3 by simp

text \<open>
  C8. For every non-empty graph \<open>G\<close> that is connected (weakly connected when directed),
  \<open>is_tree G\<close> and \<open>is_forest G\<close> return the same boolean: both return whether \<open>G\<close> has
  one edge less than it has nodes. A graph is a graph object of the library, which keeps
  the invariant \<open>wf_graph\<close>.
\<close>

theorem connected_tree_forest_agree:
  "wf_graph G \<Longrightarrow> nodes G \<noteq> [] \<Longrightarrow> connected G \<Longrightarrow>
     is_tree G = is_forest G \<and>
     is_forest G = Inr (number_of_edges G = number_of_nodes G - 1)"
  by (simp add: is_forest_connected is_tree_nonempty)

text \<open>The undirected triangle is connected, and neither a forest nor a tree.\<close>

theorem connected_tree_forest_agree_witness:
  "wf_graph (triangle False) \<and> nodes (triangle False) \<noteq> [] \<and> connected (triangle False) \<and>
   is_tree (triangle False) = Inr False \<and> is_forest (triangle False) = Inr False"
proof -
  have ne: "nodes (triangle False) \<noteq> []"
    by (simp add: triangle_def)
  from connected_tree_forest_agree [OF wf_triangle ne connected_triangle]
    is_forest_triangle [of False] wf_triangle ne connected_triangle
  show ?thesis
    by simp
qed

text \<open>
  C9. In \<open>is_branching\<close> and \<open>is_arborescence\<close> the maximum of the in-degree values is
  evaluated only after the forest or tree test returned true, which requires a graph with
  at least one node; hence the maximum is taken over a non-empty collection and never
  fails. In the model: a call made with an empty in-degree dictionary ends in
  \<open>ValueError\<close> only if the test returned true; when the test returns true the graph's
  own in-degree values are not empty; and no call on the graph's own in-degree method ends
  in \<open>ValueError\<close>.
\<close>

theorem max_never_fails:
  "(is_branching_with (\<lambda>G. Inr []) G = Inl ValueError \<longrightarrow> is_forest G = Inr True) \<and>
   (is_arborescence_with (\<lambda>G. Inr []) G = Inl ValueError \<longrightarrow> is_tree G = Inr True) \<and>
   (is_forest G = Inr True \<longrightarrow> dict_values (in_degree G) \<noteq> []) \<and>
   (is_tree G = Inr True \<longrightarrow> dict_values (in_degree G) \<noteq> []) \<and>
   is_branching G \<noteq> Inl ValueError \<and>
   is_arborescence G \<noteq> Inl ValueError"
proof (cases "nodes G = []")
  case True
  then show ?thesis
    by (simp add: is_forest_empty is_tree_empty is_branching_def is_arborescence_def
        is_branching_with_def is_arborescence_with_def not_implemented_for_undirected_def)
next
  case False
  then show ?thesis
    by (simp add: dict_values_in_degree is_forest_nonempty is_tree_nonempty
        is_branching_def is_arborescence_def is_branching_with_def is_arborescence_with_def
        not_implemented_for_undirected_def in_degree_test_nonempty)
qed

text \<open>The directed path on three nodes is a forest: its in-degree values are not empty.\<close>

theorem max_never_fails_witness:
  "is_forest (path3 True) = Inr True \<and> dict_values (in_degree (path3 True)) \<noteq> [] \<and>
   is_branching (path3 True) \<noteq> Inl ValueError \<and>
   is_arborescence (path3 True) \<noteq> Inl ValueError"
  using max_never_fails [of "path3 True"] is_forest_path3 by simp

text \<open>
  C10. For an undirected graph with zero nodes, \<open>is_branching\<close> and \<open>is_arborescence\<close>
  raise the unsupported-operation error \<open>NetworkXNotImplemented\<close> and not
  \<open>NetworkXPointlessConcept\<close>, which the decorated bodies would raise on that graph: the
  directedness guard is checked before the node count.
\<close>

theorem null_undirected_not_implemented:
  "nodes G = [] \<Longrightarrow> \<not> directed G \<Longrightarrow>
     is_branching G = Inl NetworkXNotImplemented \<and>
     is_arborescence G = Inl NetworkXNotImplemented \<and>
     is_branching G \<noteq> Inl NetworkXPointlessConcept \<and>
     is_arborescence G \<noteq> Inl NetworkXPointlessConcept \<and>
     is_forest G = Inl NetworkXPointlessConcept \<and>
     is_tree G = Inl NetworkXPointlessConcept"
  by (simp add: is_branching_def is_arborescence_def is_branching_with_def
      is_arborescence_with_def undirected_guard is_forest_empty is_tree_empty)

text \<open>The undirected graph without nodes.\<close>

theorem null_undirected_not_implemented_witness:
  "nodes (null_graph False) = [] \<and> \<not> directed (null_graph False) \<and>
   is_branching (null_graph False) = Inl NetworkXNotImplemented \<and>
   is_arborescence (null_graph False) = Inl NetworkXNotImplemented \<and>
   is_forest (null_graph False) = Inl NetworkXPointlessConcept \<and>
   is_tree (null_graph False) = Inl NetworkXPointlessConcept"
  using null_undirected_not_implemented [of "null_graph False"]
  by (simp add: null_graph_def)

end
